theory Spec2Isabelle
  imports Main "HOL-Library.Multiset"
begin

section \<open>Values, errors and the library functions the roller uses\<close>

text \<open>
  The roller (\<^verbatim>\<open>src/roller/roller.ts\<close>) is TypeScript that checks its arguments at run time
  (\<^verbatim>\<open>isNumber\<close>, \<^verbatim>\<open>isArray\<close>) and relies on truthiness (\<^verbatim>\<open>compact\<close>, \<^verbatim>\<open>roll ? roll : -1\<close>),
  so the model keeps a type of run-time values. Numbers are the integers (the die faces and
  thresholds of the program); \<^verbatim>\<open>NaN\<close> and fractions are not modelled.
\<close>

datatype jsval =
    JUndefined
  | JNull
  | JBool bool
  | JNum int
  | JStr string
  | JArr "jsval list"

text \<open>
  Every \<^verbatim>\<open>throw new Error(msg)\<close> of the source is the value \<open>Error msg\<close>. The run time
  itself throws a \<^verbatim>\<open>ReferenceError\<close> when an identifier that no scope declares is evaluated.
\<close>

datatype error = Error string | ReferenceError string

text \<open>
  Modelled from the spec: the two kinds of error of its section 7, which the source does not
  tell apart (it has the single class \<^verbatim>\<open>Error\<close>). Of the errors the source throws, the
  one of \<^verbatim>\<open>d10\<close> is an invariant violation and every other one reports a bad argument; an
  error of the run time is neither.
\<close>

datatype error_kind = InvalidArgument | InvariantViolation | Unspecified

definition kind :: "error \<Rightarrow> error_kind" where
  "kind e = (case e of
       Error m \<Rightarrow> if m = ''dice roll cannot return nil values!''
                  then InvariantViolation else InvalidArgument
     | ReferenceError m \<Rightarrow> Unspecified)"

fun isNumber :: "jsval \<Rightarrow> bool" where
  "isNumber (JNum n) = True"
| "isNumber v = False"

fun isArray :: "jsval \<Rightarrow> bool" where
  "isArray (JArr xs) = True"
| "isArray v = False"

text \<open>Truthiness: \<^verbatim>\<open>false\<close>, \<^verbatim>\<open>0\<close>, \<^verbatim>\<open>""\<close>, \<^verbatim>\<open>null\<close> and \<^verbatim>\<open>undefined\<close> are falsy.\<close>

fun truthy :: "jsval \<Rightarrow> bool" where
  "truthy JUndefined = False"
| "truthy JNull = False"
| "truthy (JBool b) = b"
| "truthy (JNum n) = (n \<noteq> 0)"
| "truthy (JStr s) = (s \<noteq> [])"
| "truthy (JArr xs) = True"

text \<open>\<^verbatim>\<open>compact(array)\<close>: the array without its falsy entries.\<close>

definition compact :: "jsval list \<Rightarrow> jsval list" where
  "compact xs = filter truthy xs"

text \<open>\<^verbatim>\<open>isEmpty(array)\<close>.\<close>

definition isEmpty :: "jsval list \<Rightarrow> bool" where
  "isEmpty xs = (xs = [])"

text \<open>\<^verbatim>\<open>every(array)\<close> with the identity predicate, on an array of booleans.\<close>

definition every :: "bool list \<Rightarrow> bool" where
  "every bs = list_all (\<lambda>b. b) bs"

text \<open>\<^verbatim>\<open>times(n, f)\<close> for a pure \<open>f\<close>: the results of \<open>f 0\<close>, ..., \<open>f (n - 1)\<close>.\<close>

definition times_js :: "nat \<Rightarrow> (nat \<Rightarrow> 'a) \<Rightarrow> 'a list" where
  "times_js n f = map f [0..<n]"

text \<open>
  \<^verbatim>\<open>range(start, end)\<close>: from \<open>start\<close> up to, but not including, \<open>stop\<close>, in steps of 1
  (of -1 when \<open>stop < start\<close>).
\<close>

definition range_js :: "int \<Rightarrow> int \<Rightarrow> int list" where
  "range_js start stop =
     (if start < stop then map (\<lambda>k. start + int k) [0..<nat (stop - start)]
      else map (\<lambda>k. start - int k) [0..<nat (start - stop)])"

text \<open>
  \<^verbatim>\<open>sample(array)\<close> returns \<^verbatim>\<open>array[i]\<close> for an index \<open>i\<close> drawn uniformly from
  \<open>0..length - 1\<close>, and \<^verbatim>\<open>undefined\<close> (here \<open>None\<close>) for an empty array. The drawn index is
  the second argument; reading outside the array is \<^verbatim>\<open>undefined\<close> too.
\<close>

definition sample :: "'a list \<Rightarrow> nat \<Rightarrow> 'a option" where
  "sample xs i = (if i < length xs then Some (xs ! i) else None)"

text \<open>
  \<^verbatim>\<open>if (!isArray(roll)) rollArray = [rollArray]\<close>: a single value becomes the array holding it
  (lines 43 and 94).
\<close>

definition as_array :: "jsval \<Rightarrow> jsval list" where
  "as_array v = (case v of JArr xs \<Rightarrow> xs | _ \<Rightarrow> [v])"

text \<open>
  \<^verbatim>\<open>rerollArray.includes(r)\<close> and \<^verbatim>\<open>rerollSet.has(r)\<close> compare with SameValueZero. Both are
  only reached with an array of numbers, where that is equality of values.
\<close>

definition includes_js :: "jsval list \<Rightarrow> jsval \<Rightarrow> bool" where
  "includes_js xs r = (r \<in> set xs)"

section \<open>The die\<close>

text \<open>
  \<^verbatim>\<open>d10\<close>, lines 17-22. The argument is the index that \<^verbatim>\<open>sample\<close> draws.
\<close>

definition d10 :: "nat \<Rightarrow> error + int" where
  "d10 draw =
     (let roll = sample (range_js 1 10) draw;
          result = (case roll of Some r \<Rightarrow> if r \<noteq> 0 then r else - 1 | None \<Rightarrow> - 1)
      in if result = - 1 then Inl (Error ''dice roll cannot return nil values!'')
         else Inr result)"

section \<open>Counting successes\<close>

text \<open>
  The configuration \<^verbatim>\<open>{ targetNumber = 7, double = 10, autosuccesses = 0 }\<close>. A field that is
  \<^verbatim>\<open>undefined\<close> takes its default. The source checks \<^verbatim>\<open>targetNumber\<close> and \<^verbatim>\<open>double\<close> at run
  time; \<^verbatim>\<open>autosuccesses\<close> is typed \<^verbatim>\<open>number\<close> and never checked, \<open>None\<close> is the omitted field.
\<close>

record success_config =
  targetNumber :: jsval
  double :: jsval
  autosuccesses :: "int option"

definition default_to :: "jsval \<Rightarrow> jsval \<Rightarrow> jsval" where
  "default_to d v = (if v = JUndefined then d else v)"

text \<open>\<^verbatim>\<open>reduce(array, f, acc)\<close> where \<open>f\<close> may throw: a left fold that stops at the first error.\<close>

fun reduce_js :: "('b \<Rightarrow> 'a \<Rightarrow> error + 'b) \<Rightarrow> 'a list \<Rightarrow> 'b \<Rightarrow> error + 'b" where
  "reduce_js f [] acc = Inr acc"
| "reduce_js f (r # rs) acc =
     (case f acc r of Inl e \<Rightarrow> Inl e | Inr acc' \<Rightarrow> reduce_js f rs acc')"

text \<open>The callback of lines 46-52, with the thresholds already known to be numbers.\<close>

fun count_step :: "int \<Rightarrow> int \<Rightarrow> int \<Rightarrow> jsval \<Rightarrow> error + int" where
  "count_step tn db acc (JNum r) =
     (if r \<le> 0 \<or> r > 10 then Inl (Error ''One of the values in roll array out of 1-10 range'')
      else Inr (acc + (if r \<ge> tn then (if r \<ge> db then 2 else 1) else 0)))"
| "count_step tn db acc v = Inl (Error ''One of the values in roll array is not a number'')"

text \<open>\<^verbatim>\<open>countSuccesses\<close>, lines 33-55.\<close>

definition countSuccesses :: "jsval \<Rightarrow> success_config \<Rightarrow> error + int" where
  "countSuccesses rollv config =
     (let tn = default_to (JNum 7) (targetNumber config);
          db = default_to (JNum 10) (double config);
          auto = (case autosuccesses config of None \<Rightarrow> 0 | Some a \<Rightarrow> a)
      in if rollv = JUndefined \<or> (\<not> isNumber rollv \<and> \<not> isArray rollv)
         then Inl (Error ''roll is required (die or array of dice)'')
         else (case tn of
            JNum t \<Rightarrow>
              (case db of
                 JNum d \<Rightarrow>
                   (let rollArray = as_array rollv
                    in reduce_js (count_step t d) rollArray auto)
               | _ \<Rightarrow> Inl (Error ''double must be a number''))
          | _ \<Rightarrow> Inl (Error ''targetNumber must be a number'')))"

section \<open>The entropy source and the pool\<close>

text \<open>
  Each call of \<^verbatim>\<open>d10\<close> consumes one draw of the random source. The source is the sequence
  of the indices still to be drawn; \<open>next_draw\<close> is the next one and \<open>advance\<close> the rest.
\<close>

type_synonym entropy = "nat \<Rightarrow> nat"

definition next_draw :: "entropy \<Rightarrow> nat" where
  "next_draw s = s 0"

definition advance :: "entropy \<Rightarrow> entropy" where
  "advance s = (\<lambda>k. s (Suc k))"

text \<open>
  A source with a fixed beginning, as a test with mocked dice has: the draws of the list in
  order, then index 0 for ever.
\<close>

definition mocked :: "nat list \<Rightarrow> entropy" where
  "mocked ds = (\<lambda>k. if k < length ds then ds ! k else 0)"

text \<open>
  \<^verbatim>\<open>times(n, d10)\<close>: \<open>n\<close> dice in draw order; an exception of \<^verbatim>\<open>d10\<close> ends the loop.
\<close>

fun times_d10 :: "nat \<Rightarrow> entropy \<Rightarrow> error + (int list \<times> entropy)" where
  "times_d10 0 s = Inr ([], s)"
| "times_d10 (Suc n) s =
     (case d10 (next_draw s) of
        Inl e \<Rightarrow> Inl e
      | Inr v \<Rightarrow>
         (case times_d10 n (advance s) of
            Inl e \<Rightarrow> Inl e
          | Inr (vs, s') \<Rightarrow> Inr (v # vs, s')))"

text \<open>\<^verbatim>\<open>rollDice\<close>, lines 62-67.\<close>

fun rollDice :: "jsval \<Rightarrow> entropy \<Rightarrow> error + (int list \<times> entropy)" where
  "rollDice (JNum n) s =
     (if n < 0 then Inl (Error ''numDice must be a positive number'')
      else times_d10 (nat n) s)"
| "rollDice v s = Inl (Error ''numDice must be a positive number'')"

section \<open>Rerolls\<close>

text \<open>
  The configuration \<^verbatim>\<open>{ rerollArray, append = true, cascade = true }\<close>; \<open>None\<close> is an omitted
  flag, which takes its default.
\<close>

record reroll_config =
  rerollArray :: jsval
  append_flag :: "bool option"
  cascade :: "bool option"

definition flag_or_true :: "bool option \<Rightarrow> bool" where
  "flag_or_true b = (case b of None \<Rightarrow> True | Some v \<Rightarrow> v)"

text \<open>
  Lines 97-99: \<^verbatim>\<open>map(rollArray, r => rerollArray.includes(r) ? d10() : false)\<close>, left to
  right, one draw for each die that is rerolled.
\<close>

fun reroll_map :: "jsval list \<Rightarrow> jsval list \<Rightarrow> entropy \<Rightarrow> error + (jsval list \<times> entropy)" where
  "reroll_map ra [] s = Inr ([], s)"
| "reroll_map ra (r # rs) s =
     (if includes_js ra r
      then (case d10 (next_draw s) of
              Inl e \<Rightarrow> Inl e
            | Inr v \<Rightarrow>
               (case reroll_map ra rs (advance s) of
                  Inl e \<Rightarrow> Inl e
                | Inr (vs, s') \<Rightarrow> Inr (JNum v # vs, s')))
      else (case reroll_map ra rs s of
              Inl e \<Rightarrow> Inl e
            | Inr (vs, s') \<Rightarrow> Inr (JBool False # vs, s')))"

text \<open>
  Line 86 reads \<^verbatim>\<open>rerollArray.forEach(r: number => {\<close>. The typed parameter has no
  parentheses, so the first argument of \<^verbatim>\<open>forEach\<close> is the expression \<^verbatim>\<open>r\<close>, and the arrow
  function \<^verbatim>\<open>number => { ... }\<close> with the check of line 87 comes after it. Neither \<^verbatim>\<open>reroll\<close>
  (whose names are \<^verbatim>\<open>roll\<close>, \<^verbatim>\<open>rerollArray\<close>, \<^verbatim>\<open>append\<close>, \<^verbatim>\<open>cascade\<close>) nor the module (which
  only imports from lodash) declares \<^verbatim>\<open>r\<close>: evaluating the argument throws.
\<close>

definition undeclared_r :: "error + jsval" where
  "undeclared_r = Inl (ReferenceError ''r is not defined'')"

text \<open>
  \<^verbatim>\<open>reroll\<close>, lines 78-106, in the order of the source: the check of line 82, the check of
  line 85, the call of line 86, and then lines 89-105, which would run if the argument of
  line 86 had a value (the arrow function of line 87 is never the callback, so its check is
  not part of them). The recursion of line 102 has no bound in the source, so the model
  takes the number of nested calls it may make: \<open>None\<close> is a computation that needs more.
\<close>

fun reroll :: "nat \<Rightarrow> jsval \<Rightarrow> reroll_config \<Rightarrow> entropy
    \<Rightarrow> (error + (jsval list \<times> entropy)) option" where
  "reroll fuel rollv config s =
     (if \<not> isNumber rollv \<and> \<not> isArray rollv
      then Some (Inl (Error ''roll is required (die or array of dice)''))
      else (case rerollArray config of
        JArr ra \<Rightarrow>
          (case undeclared_r of
             Inl e \<Rightarrow> Some (Inl e)
           | Inr callback \<Rightarrow>
              if every (times_js 10 (\<lambda>i. includes_js ra (JNum (int i + 1))))
              then Some (Inl (Error ''reroll contains 1-10''))
              else
                (let rollArray = compact (as_array rollv)
                 in if isEmpty rollArray then Some (Inr ([], s))
                    else (case reroll_map ra rollArray s of
                      Inl e \<Rightarrow> Some (Inl e)
                    | Inr (rerolls, s1) \<Rightarrow>
                        if flag_or_true (cascade config)
                        then (case fuel of
                           0 \<Rightarrow> None
                         | Suc n \<Rightarrow>
                            (case reroll n (JArr rerolls)
                                    \<lparr>rerollArray = JArr ra, append_flag = Some True,
                                     cascade = None\<rparr> s1 of
                               None \<Rightarrow> None
                             | Some (Inl e) \<Rightarrow> Some (Inl e)
                             | Some (Inr (rerolls', s2)) \<Rightarrow>
                                 Some (Inr (compact ((if flag_or_true (append_flag config)
                                                      then rollArray else []) @ rerolls'), s2))))
                        else Some (Inr (compact ((if flag_or_true (append_flag config)
                                                  then rollArray else []) @ rerolls), s1)))))
      | _ \<Rightarrow> Some (Inl (Error (''reroll isn'' @ [CHR 0x27] @ ''t an array'')))))"

declare reroll.simps [simp del]

section \<open>The roll\<close>

text \<open>
  The configuration of \<^verbatim>\<open>roll\<close>, destructured in lines 119-126 with the defaults
  \<^verbatim>\<open>double = 10\<close>, \<^verbatim>\<open>rerollArray = []\<close>, \<^verbatim>\<open>cascade = true\<close>, \<^verbatim>\<open>autosuccesses = 0\<close>;
  \<^verbatim>\<open>targetNumber\<close> has no default there and takes the one of \<^verbatim>\<open>countSuccesses\<close>. A missing
  configuration (\<open>None\<close>) is \<^verbatim>\<open>{}\<close>.
\<close>

record roll_config =
  cfg_targetNumber :: jsval
  cfg_double :: jsval
  cfg_rerollArray :: jsval
  cfg_cascade :: "bool option"
  cfg_autosuccesses :: "int option"

definition empty_config :: roll_config where
  "empty_config =
     \<lparr>cfg_targetNumber = JUndefined, cfg_double = JUndefined, cfg_rerollArray = JUndefined,
      cfg_cascade = None, cfg_autosuccesses = None\<rparr>"

record roll_result =
  result :: "jsval list"
  diceRolled :: nat
  successes :: int
  numDice :: jsval
  botch :: bool

text \<open>
  \<^verbatim>\<open>roll\<close>, lines 118-142. The first argument bounds the recursion of \<^verbatim>\<open>reroll\<close>;
  \<open>config_or_empty\<close> is \<^verbatim>\<open>config || {}\<close>.
\<close>

definition config_or_empty :: "roll_config option \<Rightarrow> roll_config" where
  "config_or_empty config = (case config of None \<Rightarrow> empty_config | Some c \<Rightarrow> c)"

definition roll :: "nat \<Rightarrow> jsval \<Rightarrow> roll_config option \<Rightarrow> entropy
    \<Rightarrow> (error + (roll_result \<times> entropy)) option" where
  "roll fuel nd config s =
     (let c = config_or_empty config;
          tn = cfg_targetNumber c;
          db = default_to (JNum 10) (cfg_double c);
          ra = default_to (JArr []) (cfg_rerollArray c);
          casc = flag_or_true (cfg_cascade c);
          auto = (case cfg_autosuccesses c of None \<Rightarrow> 0 | Some a \<Rightarrow> a)
      in case rollDice nd s of
           Inl e \<Rightarrow> Some (Inl e)
         | Inr (theRoll, s1) \<Rightarrow>
            (case reroll fuel (JArr (map JNum theRoll))
                    \<lparr>rerollArray = ra, append_flag = Some True, cascade = Some casc\<rparr> s1 of
               None \<Rightarrow> None
             | Some (Inl e) \<Rightarrow> Some (Inl e)
             | Some (Inr (res, s2)) \<Rightarrow>
                (case countSuccesses (JArr (map JNum theRoll))
                        \<lparr>targetNumber = tn, double = db, autosuccesses = Some auto\<rparr> of
                   Inl e \<Rightarrow> Some (Inl e)
                 | Inr succ \<Rightarrow>
                    Some (Inr (\<lparr>result = res, diceRolled = length res, successes = succ,
                                numDice = nd,
                                botch = (succ = 0 \<and> includes_js res (JNum 1))\<rparr>, s2)))))"

section \<open>Notions used in the statements\<close>

text \<open>A die result that \<^verbatim>\<open>countSuccesses\<close> accepts: a number in \<open>(0, 10]\<close>.\<close>

fun valid_die :: "jsval \<Rightarrow> bool" where
  "valid_die (JNum r) = (0 < r \<and> r \<le> 10)"
| "valid_die v = False"

text \<open>
  The contribution of one face as the specification words it, the cases taken in the order
  they are written: 0 below the target number, 1 from the target number up to the double
  threshold, 2 otherwise.
\<close>

definition spec_contribution :: "int \<Rightarrow> int \<Rightarrow> int \<Rightarrow> int" where
  "spec_contribution t d r = (if r < t then 0 else if t \<le> r \<and> r < d then 1 else 2)"

text \<open>
  The botch flag as the specification words it: no success and a 1 in the raw pool.
\<close>

definition spec_botch :: "int list \<Rightarrow> int \<Rightarrow> bool" where
  "spec_botch theRoll succ = (succ = 0 \<and> 1 \<in> set theRoll)"

section \<open>The die: its faces and its error branch\<close>

lemma range_1_10: "range_js 1 10 = [1, 2, 3, 4, 5, 6, 7, 8, 9]"
  by (simp add: range_js_def upt_conv_Cons)

lemma d10_eq:
  "d10 draw = (if draw < 9 then Inr (int draw + 1)
               else Inl (Error ''dice roll cannot return nil values!''))"
proof (cases "draw < 9")
  case True
  have len: "length (range_js 1 10) = 9" by (simp add: range_js_def)
  have nth: "range_js 1 10 ! draw = 1 + int draw"
    using True by (simp add: range_js_def)
  show ?thesis using True len nth by (simp add: d10_def sample_def Let_def)
next
  case False
  have len: "length (range_js 1 10) = 9" by (simp add: range_js_def)
  show ?thesis using False len by (simp add: d10_def sample_def Let_def)
qed

text \<open>
  C1. The claim asks that every face from 1 to 10 is drawn by some index and that every
  result lies in 1..10. The array sampled is \<^verbatim>\<open>range(1, 10)\<close>, which stops at 9: the faces
  \<^verbatim>\<open>d10\<close> can return are exactly 1..9, and no draw gives 10.
\<close>

theorem d10_faces: "(\<exists>draw. d10 draw = Inr f) \<longleftrightarrow> (1 \<le> f \<and> f \<le> 9)"
proof
  assume "\<exists>draw. d10 draw = Inr f"
  then obtain draw where "d10 draw = Inr f" ..
  then show "1 \<le> f \<and> f \<le> 9" by (auto simp: d10_eq split: if_splits)
next
  assume f: "1 \<le> f \<and> f \<le> 9"
  then have "d10 (nat (f - 1)) = Inr f" by (auto simp: d10_eq)
  then show "\<exists>draw. d10 draw = Inr f" ..
qed

theorem d10_faces_witness: "\<not> (\<exists>draw. d10 draw = Inr 10) \<and> (\<exists>draw. d10 draw = Inr 9)"
  using d10_faces [of 10] d10_faces [of 9] by simp

text \<open>
  C10. For every index that \<^verbatim>\<open>sample\<close> can draw from the array, which is not empty, \<^verbatim>\<open>d10\<close>
  returns a value: the branch that throws "dice roll cannot return nil values!" is not
  taken.
\<close>

theorem d10_never_nil:
  assumes "draw < length (range_js 1 10)"
  shows "range_js 1 10 \<noteq> [] \<and> (\<exists>v. d10 draw = Inr v)
         \<and> d10 draw \<noteq> Inl (Error ''dice roll cannot return nil values!'')"
  using assms by (simp add: d10_eq range_1_10)

theorem d10_never_nil_witness:
  "(4::nat) < length (range_js 1 10) \<and> range_js 1 10 \<noteq> [] \<and> (\<exists>v. d10 4 = Inr v)
     \<and> d10 4 \<noteq> Inl (Error ''dice roll cannot return nil values!'')"
  using d10_never_nil [of 4] by (simp add: range_1_10)

section \<open>Counting successes: the sum, permutations, rejected dice\<close>

lemma reduce_valid_nums:
  "\<forall>r\<in>set rs. 0 < r \<and> r \<le> 10 \<Longrightarrow>
   reduce_js (count_step t d) (map JNum rs) acc =
     Inr (acc + (\<Sum>r\<leftarrow>rs. if r \<ge> t then (if r \<ge> d then 2 else 1) else 0))"
  by (induction rs arbitrary: acc) auto

lemma countSuccesses_nums:
  "countSuccesses (JArr xs) \<lparr>targetNumber = JNum t, double = JNum d, autosuccesses = Some a\<rparr>
     = reduce_js (count_step t d) xs a"
  by (simp add: countSuccesses_def default_to_def as_array_def)

lemma contribution_eq:
  "(if r \<ge> t then (if r \<ge> d then 2 else 1) else 0) = spec_contribution t d (r::int)"
  by (simp add: spec_contribution_def)

lemma sum_counted:
  "d < t \<Longrightarrow> (\<Sum>r\<leftarrow>(rs::int list). if r \<ge> t then (if r \<ge> d then 2 else 1) else (0::int))
      = 2 * int (length (filter (\<lambda>r. t \<le> r) rs))"
  by (induction rs) auto

text \<open>
  C4. For die faces in \<open>(0, 10]\<close> and numeric thresholds and autosuccesses, \<^verbatim>\<open>countSuccesses\<close>
  returns \<open>autosuccesses\<close> plus, for each face, 0 below the target number, 1 from the target
  number up to the double threshold and 2 from the double threshold on (the cases in the
  order the specification writes them). A double threshold below the target number is
  accepted: the call returns a result, in which every die that reaches the target number
  scores 2 and no other die scores.
\<close>

theorem countSuccesses_sum:
  assumes "\<forall>r\<in>set rs. 0 < r \<and> r \<le> 10"
  shows "countSuccesses (JArr (map JNum rs))
           \<lparr>targetNumber = JNum t, double = JNum d, autosuccesses = Some a\<rparr>
         = Inr (a + (\<Sum>r\<leftarrow>rs. spec_contribution t d r))
       \<and> (d < t \<longrightarrow>
           countSuccesses (JArr (map JNum rs))
             \<lparr>targetNumber = JNum t, double = JNum d, autosuccesses = Some a\<rparr>
           = Inr (a + 2 * int (length (filter (\<lambda>r. t \<le> r) rs))))"
proof -
  have run: "countSuccesses (JArr (map JNum rs))
           \<lparr>targetNumber = JNum t, double = JNum d, autosuccesses = Some a\<rparr>
         = Inr (a + (\<Sum>r\<leftarrow>rs. if r \<ge> t then (if r \<ge> d then 2 else 1) else 0))"
    using assms by (simp only: countSuccesses_nums reduce_valid_nums)
  have "(\<Sum>r\<leftarrow>rs. if r \<ge> t then (if r \<ge> d then 2 else 1) else 0)
        = (\<Sum>r\<leftarrow>rs. spec_contribution t d r)"
    by (simp only: contribution_eq)
  with run sum_counted [of d t rs] show ?thesis by simp
qed

theorem countSuccesses_sum_witness:
  "(0::int) < 5 \<and> (5::int) \<le> 10 \<and> (0::int) < 9 \<and> (9::int) \<le> 10 \<and> (3::int) < 7
   \<and> countSuccesses (JArr (map JNum [5, 9]))
        \<lparr>targetNumber = JNum 7, double = JNum 3, autosuccesses = Some 1\<rparr> = Inr 3
   \<and> spec_contribution 7 3 5 = 0 \<and> spec_contribution 7 3 9 = 2"
  using countSuccesses_sum [of "[5, 9]" 7 3 1] by (simp add: spec_contribution_def)

lemma countSuccesses_array:
  "countSuccesses (JArr xs) config =
     (case default_to (JNum 7) (targetNumber config) of
        JNum t \<Rightarrow>
          (case default_to (JNum 10) (double config) of
             JNum d \<Rightarrow> reduce_js (count_step t d) xs
                         (case autosuccesses config of None \<Rightarrow> 0 | Some a \<Rightarrow> a)
           | _ \<Rightarrow> Inl (Error ''double must be a number''))
      | _ \<Rightarrow> Inl (Error ''targetNumber must be a number''))"
  by (simp add: countSuccesses_def as_array_def Let_def split: jsval.splits)

lemma reduce_valid_dice:
  "\<forall>x\<in>set xs. valid_die x \<Longrightarrow>
   reduce_js (count_step t d) xs acc =
     Inr (acc + (\<Sum>x\<leftarrow>xs. case x of JNum r \<Rightarrow> (if r \<ge> t then (if r \<ge> d then 2 else 1) else 0)
                              | _ \<Rightarrow> 0))"
proof (induction xs arbitrary: acc)
  case Nil
  then show ?case by simp
next
  case (Cons x xs)
  then obtain r where "x = JNum r" "0 < r" "r \<le> 10" by (cases x) auto
  with Cons show ?case by simp
qed

lemma reduce_permutation:
  assumes "mset xs = mset ys" and "\<forall>x\<in>set xs. valid_die x"
  shows "reduce_js (count_step t d) xs acc = reduce_js (count_step t d) ys acc"
proof -
  let ?g = "\<lambda>x. case x of JNum r \<Rightarrow> (if r \<ge> t then (if r \<ge> d then 2 else 1) else 0) | _ \<Rightarrow> (0::int)"
  have "set ys = set xs" using assms(1) by (metis set_mset_mset)
  then have ys: "\<forall>x\<in>set ys. valid_die x" using assms(2) by simp
  have "sum_list (map ?g xs) = sum_mset (image_mset ?g (mset xs))"
    by (simp only: sum_mset_sum_list [symmetric] mset_map)
  also have "\<dots> = sum_mset (image_mset ?g (mset ys))" using assms(1) by simp
  also have "\<dots> = sum_list (map ?g ys)"
    by (simp only: sum_mset_sum_list [symmetric] mset_map)
  finally show ?thesis
    using reduce_valid_dice [OF assms(2)] reduce_valid_dice [OF ys] by simp
qed

text \<open>
  C5. \<^verbatim>\<open>countSuccesses\<close> is invariant under permutation: two sequences of accepted dice
  with the same elements, in any order, give the same result under the same configuration.
\<close>

theorem countSuccesses_permutation:
  assumes "mset xs = mset ys" and "\<forall>x\<in>set xs. valid_die x"
  shows "countSuccesses (JArr xs) config = countSuccesses (JArr ys) config"
  using reduce_permutation [OF assms]
  by (simp add: countSuccesses_array split: jsval.splits)

theorem countSuccesses_permutation_witness:
  "mset [JNum 10, JNum 3, JNum 7] = mset [JNum 7, JNum 10, JNum 3]
   \<and> valid_die (JNum 10) \<and> valid_die (JNum 3) \<and> valid_die (JNum 7)
   \<and> countSuccesses (JArr [JNum 10, JNum 3, JNum 7])
        \<lparr>targetNumber = JUndefined, double = JUndefined, autosuccesses = None\<rparr>
     = countSuccesses (JArr [JNum 7, JNum 10, JNum 3])
        \<lparr>targetNumber = JUndefined, double = JUndefined, autosuccesses = None\<rparr>
   \<and> countSuccesses (JArr [JNum 7, JNum 10, JNum 3])
        \<lparr>targetNumber = JUndefined, double = JUndefined, autosuccesses = None\<rparr> = Inr 3"
proof -
  have m: "mset [JNum 10, JNum 3, JNum 7] = mset [JNum 7, JNum 10, JNum 3]" by simp
  have v: "\<forall>x\<in>set [JNum 10, JNum 3, JNum 7]. valid_die x" by simp
  show ?thesis
    using m countSuccesses_permutation [OF m v, of
        "\<lparr>targetNumber = JUndefined, double = JUndefined, autosuccesses = None\<rparr>"]
    by (simp add: countSuccesses_array default_to_def)
qed

lemma count_step_error:
  "count_step t d acc y = Inl e \<Longrightarrow>
     e = Error ''One of the values in roll array is not a number''
     \<or> e = Error ''One of the values in roll array out of 1-10 range''"
  by (cases y) (auto split: if_splits)

lemma count_step_accepts: "count_step t d acc y = Inr acc' \<Longrightarrow> valid_die y"
  by (cases y) (auto split: if_splits)

lemma reduce_invalid:
  "x \<in> set xs \<Longrightarrow> \<not> valid_die x \<Longrightarrow>
   \<exists>e. reduce_js (count_step t d) xs acc = Inl e \<and>
     (e = Error ''One of the values in roll array is not a number''
      \<or> e = Error ''One of the values in roll array out of 1-10 range'')"
proof (induction xs arbitrary: acc)
  case Nil
  then show ?case by simp
next
  case (Cons y ys)
  show ?case
  proof (cases "count_step t d acc y")
    case (Inl e)
    then show ?thesis using count_step_error [OF Inl] by simp
  next
    case (Inr acc')
    then have "valid_die y" by (rule count_step_accepts)
    with Cons.prems have "x \<in> set ys" by auto
    from Cons.IH [OF this Cons.prems(2)] Inr show ?thesis by simp
  qed
qed

lemma arg_errors_kind:
  "kind (Error ''One of the values in roll array is not a number'') = InvalidArgument"
  "kind (Error ''One of the values in roll array out of 1-10 range'') = InvalidArgument"
  "kind (Error ''double must be a number'') = InvalidArgument"
  "kind (Error ''targetNumber must be a number'') = InvalidArgument"
  by (simp_all add: kind_def)

text \<open>
  C7. A sequence with an element that is not a number, or is 0, negative or above 10, makes
  \<^verbatim>\<open>countSuccesses\<close> fail with an error of kind InvalidArgument; no count is returned.
\<close>

theorem countSuccesses_rejects:
  assumes "x \<in> set xs"
    and "\<not> isNumber x \<or> (\<exists>r. x = JNum r \<and> (r = 0 \<or> r < 0 \<or> r > 10))"
  shows "\<exists>e. countSuccesses (JArr xs) config = Inl e \<and> kind e = InvalidArgument"
proof -
  have bad: "\<not> valid_die x" using assms(2) by (cases x) auto
  show ?thesis
  proof (cases "default_to (JNum 7) (targetNumber config)")
    case (JNum t)
    show ?thesis
    proof (cases "default_to (JNum 10) (double config)")
      case (JNum d)
      from reduce_invalid [OF assms(1) bad, of t d
          "case autosuccesses config of None \<Rightarrow> 0 | Some a \<Rightarrow> a"]
      show ?thesis
        using \<open>default_to (JNum 7) (targetNumber config) = JNum t\<close> JNum
        by (auto simp: countSuccesses_array arg_errors_kind)
    qed (simp_all add: countSuccesses_array JNum arg_errors_kind)
  qed (simp_all add: countSuccesses_array arg_errors_kind)
qed

theorem countSuccesses_rejects_witness:
  "JNum 0 \<in> set [JNum 7, JNum 0]
   \<and> countSuccesses (JArr [JNum 7, JNum 0])
        \<lparr>targetNumber = JUndefined, double = JUndefined, autosuccesses = None\<rparr>
      = Inl (Error ''One of the values in roll array out of 1-10 range'')
   \<and> (\<exists>e. countSuccesses (JArr [JNum 7, JNum 0])
        \<lparr>targetNumber = JUndefined, double = JUndefined, autosuccesses = None\<rparr> = Inl e
        \<and> kind e = InvalidArgument)"
proof -
  have m: "JNum 0 \<in> set [JNum 7, JNum 0]" by simp
  have b: "\<not> isNumber (JNum 0) \<or> (\<exists>r. JNum 0 = JNum r \<and> (r = 0 \<or> r < 0 \<or> r > 10))" by simp
  show ?thesis
    using countSuccesses_rejects [OF m b, of
        "\<lparr>targetNumber = JUndefined, double = JUndefined, autosuccesses = None\<rparr>"]
    by (simp add: countSuccesses_array default_to_def)
qed


section \<open>Rerolls: the call of line 86\<close>

lemma reroll_line_86:
  "reroll fuel rollv config s =
     (if \<not> isNumber rollv \<and> \<not> isArray rollv
      then Some (Inl (Error ''roll is required (die or array of dice)''))
      else if isArray (rerollArray config)
      then Some (Inl (ReferenceError ''r is not defined''))
      else Some (Inl (Error (''reroll isn'' @ [CHR 0x27] @ ''t an array''))))"
  by (subst reroll.simps) (simp add: undeclared_r_def split: jsval.splits)

lemma every_covers:
  "(\<forall>f\<in>{1..10}. JNum f \<in> set ra)
     \<Longrightarrow> every (times_js 10 (\<lambda>i. includes_js ra (JNum (int i + 1))))"
  by (auto simp: every_def times_js_def includes_js_def list_all_iff)

lemma next_draw_mocked [simp]:
  "next_draw (mocked (d # ds)) = d" "next_draw (mocked []) = 0"
  by (simp_all add: next_draw_def mocked_def)

lemma advance_mocked [simp]:
  "advance (mocked (d # ds)) = mocked ds" "advance (mocked []) = mocked []"
  by (rule ext, simp add: advance_def mocked_def)+

text \<open>
  C6. The claim expects a \<^verbatim>\<open>rerollArray\<close> that holds every face from 1 to 10 to be rejected
  by the check of lines 89-91, as a bad argument. For such an array that check would
  fire, but the call of line 86 comes first and throws: whatever the roll (a number or an
  array, the empty one too), the flags, the entropy and the bound, \<^verbatim>\<open>reroll\<close> ends with the
  \<^verbatim>\<open>ReferenceError\<close> of the undeclared \<^verbatim>\<open>r\<close>, which is no InvalidArgument.
\<close>

theorem reroll_all_faces_reference_error:
  assumes "isNumber rollv \<or> isArray rollv"
    and "\<forall>f\<in>{1..10}. JNum f \<in> set ra"
  shows "reroll fuel rollv \<lparr>rerollArray = JArr ra, append_flag = ap, cascade = ca\<rparr> s
           = Some (Inl (ReferenceError ''r is not defined''))
         \<and> kind (ReferenceError ''r is not defined'') \<noteq> InvalidArgument
         \<and> every (times_js 10 (\<lambda>i. includes_js ra (JNum (int i + 1))))"
  using assms(1) every_covers [OF assms(2)]
  by (simp add: reroll_line_86 kind_def)

theorem reroll_all_faces_reference_error_witness:
  "isArray (JArr [JNum 5])
   \<and> reroll 0 (JArr [JNum 5])
        \<lparr>rerollArray = JArr (map JNum [1, 2, 3, 4, 5, 6, 7, 8, 9, 10]),
         append_flag = None, cascade = None\<rparr> (mocked [])
       = Some (Inl (ReferenceError ''r is not defined''))
   \<and> every (times_js 10 (\<lambda>i. includes_js (map JNum [1, 2, 3, 4, 5, 6, 7, 8, 9, 10])
                                  (JNum (int i + 1))))"
proof -
  have a: "isNumber (JArr [JNum 5]) \<or> isArray (JArr [JNum 5])" by simp
  have b: "\<forall>f\<in>{1..10}. JNum f \<in> set (map JNum [1, 2, 3, 4, 5, 6, 7, 8, 9, 10])"
  proof
    fix f :: int
    assume "f \<in> {1..10}"
    then have "f \<in> set [1, 2, 3, 4, 5, 6, 7, 8, 9, 10]" by (simp; presburger)
    then show "JNum f \<in> set (map JNum [1, 2, 3, 4, 5, 6, 7, 8, 9, 10])"
      by (simp only: set_map imageI)
  qed
  from reroll_all_faces_reference_error [OF a b, of 0 None None "mocked []"]
  show ?thesis by simp
qed

text \<open>
  C8. The claim expects \<^verbatim>\<open>reroll\<close> with \<^verbatim>\<open>append: true\<close> to return the compacted input
  followed by the fresh rerolls, and \<^verbatim>\<open>reroll([5], {rerollArray: [1], append: true})\<close> to
  return \<^verbatim>\<open>[5]\<close>. On that input, where 5 is no reroll face and the compacted input is
  \<^verbatim>\<open>[5]\<close>, the call of line 86 throws and nothing is returned.
\<close>

theorem reroll_append_example_throws:
  "reroll fuel (JArr [JNum 5])
      \<lparr>rerollArray = JArr [JNum 1], append_flag = Some True, cascade = ca\<rparr> s
     = Some (Inl (ReferenceError ''r is not defined''))
   \<and> compact (as_array (JArr [JNum 5])) = [JNum 5]
   \<and> \<not> includes_js [JNum 1] (JNum 5)"
  by (simp add: reroll_line_86 compact_def as_array_def includes_js_def)



section \<open>The roll: no result is returned\<close>

lemma roll_fails: "\<exists>e. roll fuel nd config s = Some (Inl e)"
  by (cases "rollDice nd s")
     (auto simp: roll_def Let_def reroll_line_86 split: prod.splits)

lemma roll_after_pool:
  "rollDice nd s = Inr (theRoll, s1) \<Longrightarrow>
   isArray (default_to (JArr []) (cfg_rerollArray (config_or_empty config))) \<Longrightarrow>
   roll fuel nd config s = Some (Inl (ReferenceError ''r is not defined''))"
  by (simp add: roll_def Let_def reroll_line_86)

lemma pool_of_three: "rollDice (JNum 3) (mocked [0, 0, 0]) = Inr ([1, 1, 1], mocked [])"
  by (simp add: d10_eq numeral_3_eq_3)

lemma pool_of_five:
  "rollDice (JNum 5) (mocked [6, 7, 8, 8, 2]) = Inr ([7, 8, 9, 9, 3], mocked [])"
  by (simp add: d10_eq eval_nat_numeral)

text \<open>
  C2. The claim expects \<^verbatim>\<open>roll\<close> to return a botch flag that is true when there is no
  success and the raw pool shows a 1. With three dice that all show 1 and the default
  configuration, the pool is \<open>[1, 1, 1]\<close> and counts no success, so the flag should be true;
  \<^verbatim>\<open>roll\<close> calls \<^verbatim>\<open>reroll\<close> before it counts (line 128), the call of line 86 throws, and no
  result, hence no flag, is returned.
\<close>

theorem roll_botch_example_throws:
  "roll fuel (JNum 3) None (mocked [0, 0, 0]) = Some (Inl (ReferenceError ''r is not defined''))
   \<and> rollDice (JNum 3) (mocked [0, 0, 0]) = Inr ([1, 1, 1], mocked [])
   \<and> countSuccesses (JArr (map JNum [1, 1, 1]))
        \<lparr>targetNumber = JUndefined, double = JUndefined, autosuccesses = None\<rparr> = Inr 0
   \<and> spec_botch [1, 1, 1] 0"
  using roll_after_pool [OF pool_of_three, of None fuel] pool_of_three
  by (simp add: config_or_empty_def empty_config_def default_to_def spec_botch_def
      countSuccesses_array)

text \<open>
  C3. The claim expects the \<^verbatim>\<open>successes\<close> field of \<^verbatim>\<open>roll\<close> to be \<^verbatim>\<open>countSuccesses\<close> of the raw
  pool. \<^verbatim>\<open>roll\<close> returns no field at all: on every input it ends with an error, of
  \<^verbatim>\<open>rollDice\<close> or of \<^verbatim>\<open>reroll\<close>, before line 129 counts. With the dice 7, 8, 9, 9, 3, target
  number 7, double 10 and no reroll face, the pool counts 4 successes and \<^verbatim>\<open>roll\<close> throws
  at line 86.
\<close>

theorem roll_never_returns:
  "(\<exists>e. roll fuel nd config s = Some (Inl e))
   \<and> roll fuel (JNum 5)
        (Some \<lparr>cfg_targetNumber = JNum 7, cfg_double = JNum 10, cfg_rerollArray = JArr [],
               cfg_cascade = None, cfg_autosuccesses = Some 0\<rparr>)
        (mocked [6, 7, 8, 8, 2])
      = Some (Inl (ReferenceError ''r is not defined''))
   \<and> rollDice (JNum 5) (mocked [6, 7, 8, 8, 2]) = Inr ([7, 8, 9, 9, 3], mocked [])
   \<and> countSuccesses (JArr (map JNum [7, 8, 9, 9, 3]))
        \<lparr>targetNumber = JNum 7, double = JNum 10, autosuccesses = Some 0\<rparr> = Inr 4"
  using roll_fails [of fuel nd config s]
    roll_after_pool [OF pool_of_five, of
      "Some \<lparr>cfg_targetNumber = JNum 7, cfg_double = JNum 10, cfg_rerollArray = JArr [],
             cfg_cascade = None, cfg_autosuccesses = Some 0\<rparr>" fuel]
    pool_of_five
  by (simp add: config_or_empty_def default_to_def countSuccesses_array)

end
